theory Spec2Isabelle
  imports Main
begin

section \<open>JavaScript values the provider relies on\<close>

text \<open>
  A JavaScript string is modelled as a HOL \<open>string\<close>; each \<open>char\<close> stands for one
  UTF-16 code unit below 256. An optional value (\<open>undefined\<close> or \<open>null\<close>) is \<open>None\<close>.
\<close>

text \<open>Truthiness of an optional string: \<open>undefined\<close> and \<open>''\<close> are falsy.\<close>

definition truthy_str :: "string option \<Rightarrow> bool" where
  "truthy_str s = (case s of None \<Rightarrow> False | Some t \<Rightarrow> t \<noteq> [])"

text \<open>The characters of the class \<open>\s\<close> (and the ones \<open>trim\<close> strips) among the code units below 256.\<close>

definition js_isSpace :: "char \<Rightarrow> bool" where
  "js_isSpace c = (of_char c \<in> {9, 10, 11, 12, 13, 32, 160 :: nat})"

text \<open>\<open>s.trim()\<close>: leading and trailing white space removed.\<close>

definition js_trim :: "string \<Rightarrow> string" where
  "js_trim s = rev (dropWhile js_isSpace (rev (dropWhile js_isSpace s)))"

text \<open>\<open>parts.join(sep)\<close> on an array of strings.\<close>

fun js_join :: "string \<Rightarrow> string list \<Rightarrow> string" where
  "js_join sep [] = []"
| "js_join sep [x] = x"
| "js_join sep (x # y # ys) = x @ sep @ js_join sep (y # ys)"

text \<open>\<open>xs[i]\<close>: \<open>undefined\<close> out of range.\<close>

fun js_index :: "'a list \<Rightarrow> nat \<Rightarrow> 'a option" where
  "js_index [] i = None"
| "js_index (x # xs) 0 = Some x"
| "js_index (x # xs) (Suc i) = js_index xs i"

text \<open>\<open>s.slice(a)\<close> and \<open>s.slice(0, b)\<close> for non-negative indices.\<close>

definition js_slice_from :: "string \<Rightarrow> nat \<Rightarrow> string" where
  "js_slice_from s a = drop a s"

definition js_slice_to :: "string \<Rightarrow> nat \<Rightarrow> string" where
  "js_slice_to s b = take b s"

subsection \<open>Regular expressions\<close>

text \<open>
  The regular expression literals of the source are written as terms of \<open>rx\<close>, one
  constructor per operator of the literal; \<open>Cls p\<close> is a character class. Matching is
  decided with derivatives. Every literal of the source is used for the existence of a
  match only (or for the number of elements of the match array), so the anchors are
  written out: an unanchored literal may start and stop anywhere.
\<close>

datatype rx =
    Never
  | Eps
  | Cls "char \<Rightarrow> bool"
  | Seq rx rx
  | Alt rx rx
  | Star rx

fun nullable :: "rx \<Rightarrow> bool" where
  "nullable Never = False"
| "nullable Eps = True"
| "nullable (Cls p) = False"
| "nullable (Seq r s) = (nullable r \<and> nullable s)"
| "nullable (Alt r s) = (nullable r \<or> nullable s)"
| "nullable (Star r) = True"

fun deriv :: "char \<Rightarrow> rx \<Rightarrow> rx" where
  "deriv c Never = Never"
| "deriv c Eps = Never"
| "deriv c (Cls p) = (if p c then Eps else Never)"
| "deriv c (Seq r s) = Alt (Seq (deriv c r) s) (if nullable r then deriv c s else Never)"
| "deriv c (Alt r s) = Alt (deriv c r) (deriv c s)"
| "deriv c (Star r) = Seq (deriv c r) (Star r)"

text \<open>\<open>accepts r s\<close>: the whole of \<open>s\<close> matches \<open>r\<close>.\<close>

fun accepts :: "rx \<Rightarrow> string \<Rightarrow> bool" where
  "accepts r [] = nullable r"
| "accepts r (c # cs) = accepts (deriv c r) cs"

definition Chr :: "char \<Rightarrow> rx" where
  "Chr c = Cls (\<lambda>d. d = c)"

text \<open>A letter under the flag \<open>i\<close>: the lower-case letter or its upper-case form.\<close>

definition ChrI :: "char \<Rightarrow> rx" where
  "ChrI c = Cls (\<lambda>d. d = c \<or> of_char d + 32 = (of_char c :: nat))"

definition Opt :: "rx \<Rightarrow> rx" where
  "Opt r = Alt r Eps"

definition Plus :: "rx \<Rightarrow> rx" where
  "Plus r = Seq r (Star r)"

definition AnyStar :: rx where
  "AnyStar = Star (Cls (\<lambda>d. True))"

fun LitI :: "string \<Rightarrow> rx" where
  "LitI [] = Eps"
| "LitI (c # cs) = Seq (ChrI c) (LitI cs)"

text \<open>\<open>/r/\<close> finds a match somewhere, \<open>/^r/\<close> at the start, \<open>/r$/\<close> up to the end.\<close>

definition re_search :: "rx \<Rightarrow> string \<Rightarrow> bool" where
  "re_search r s = accepts (Seq AnyStar (Seq r AnyStar)) s"

definition re_at_start :: "rx \<Rightarrow> string \<Rightarrow> bool" where
  "re_at_start r s = accepts (Seq r AnyStar) s"

text \<open>
  \<open>s.match(/r$/)\<close> for a literal without groups: the match array holds the matched
  text only. The match starts at the leftmost index from which the rest of \<open>s\<close>
  matches \<open>r\<close>; \<open>null\<close> is \<open>None\<close>.
\<close>

fun re_match_to_end :: "rx \<Rightarrow> string \<Rightarrow> string list option" where
  "re_match_to_end r [] = (if nullable r then Some [[]] else None)"
| "re_match_to_end r (c # cs) =
     (if accepts r (c # cs) then Some [c # cs] else re_match_to_end r cs)"

section \<open>Protocol and editor data\<close>

datatype error = TypeError | BackendError string

text \<open>
  Modelled from the spec: the capability version of the backend and its thresholds
  (\<open>utils/api\<close> is not among the sources). A version is its major, minor and patch
  numbers, compared in that order; \<open>v290\<close> is the legacy threshold of the trigger gate
  and \<open>v430\<close> the version with native space-triggered completion.
\<close>

type_synonym api_version = "nat \<times> nat \<times> nat"

fun api_lt :: "api_version \<Rightarrow> api_version \<Rightarrow> bool" where
  "api_lt (a, b, c) (x, y, z) = (a < x \<or> (a = x \<and> (b < y \<or> (b = y \<and> c < z))))"

definition api_gte :: "api_version \<Rightarrow> api_version \<Rightarrow> bool" where
  "api_gte v w = (\<not> api_lt v w)"

definition v290 :: api_version where "v290 = (2, 9, 0)"
definition v300 :: api_version where "v300 = (3, 0, 0)"
definition v310 :: api_version where "v310 = (3, 1, 0)"
definition v320 :: api_version where "v320 = (3, 2, 0)"
definition v381 :: api_version where "v381 = (3, 8, 1)"
definition v430 :: api_version where "v430 = (4, 3, 0)"

record CompletionConfiguration =
  useCodeSnippetsOnMethodSuggest :: bool
  nameSuggestions :: bool
  pathSuggestions :: bool
  autoImportSuggestions :: bool
  importStatementSuggestions :: bool

text \<open>
  \<open>getConfigurationForResource\<close>: the five flags read from the configuration of the
  workspace for the language and the document, each with its default.
\<close>

definition config_get :: "(string \<Rightarrow> bool option) \<Rightarrow> string \<Rightarrow> bool \<Rightarrow> bool" where
  "config_get config key dflt = (case config key of None \<Rightarrow> dflt | Some b \<Rightarrow> b)"

definition getConfigurationForResource :: "(string \<Rightarrow> bool option) \<Rightarrow> CompletionConfiguration"
where
  "getConfigurationForResource config =
     \<lparr>useCodeSnippetsOnMethodSuggest = config_get config ''suggest.completeFunctionCalls'' False,
      nameSuggestions = config_get config ''suggest.names'' True,
      pathSuggestions = config_get config ''suggest.paths'' True,
      autoImportSuggestions = config_get config ''suggest.autoImports'' True,
      importStatementSuggestions = config_get config ''suggest.importStatements'' True\<rparr>"

text \<open>The completion option the editor passes along with the trigger character.\<close>

record complete_option =
  synname :: "string option"

section \<open>Trigger gate\<close>

text \<open>\<open>/string/i\<close>, \<open>/^\s*\*[ ]?@/\<close> and \<open>/\/\*\*+[ ]?@/\<close>.\<close>

definition rx_string :: rx where
  "rx_string = LitI ''string''"

definition rx_jsdoc_line :: rx where
  "rx_jsdoc_line =
     Seq (Star (Cls js_isSpace)) (Seq (Chr CHR ''*'') (Seq (Opt (Chr CHR '' '')) (Chr CHR ''@'')))"

definition rx_jsdoc_open :: rx where
  "rx_jsdoc_open =
     Seq (Chr CHR ''/'') (Seq (Chr CHR ''*'') (Seq (Plus (Chr CHR ''*''))
       (Seq (Opt (Chr CHR '' '')) (Chr CHR ''@''))))"

text \<open>The test \<open>option.synname && /string/i.test(option.synname)\<close>.\<close>

definition synnameIsString :: "complete_option \<Rightarrow> bool" where
  "synnameIsString opt =
     (case synname opt of None \<Rightarrow> False | Some syn \<Rightarrow> syn \<noteq> [] \<and> re_search rx_string syn)"

text \<open>
  \<open>shouldTrigger\<close>, first block: what the guard for a legacy backend decides. \<open>Some b\<close>
  is \<open>return b\<close>; \<open>None\<close> falls through to the rest of the function. The trigger
  character is \<open>None\<close> when the completion was not started by a trigger character.
\<close>

definition shouldTrigger_legacy ::
  "api_version \<Rightarrow> string option \<Rightarrow> string \<Rightarrow> complete_option \<Rightarrow> bool option"
where
  "shouldTrigger_legacy apiVersion triggerCharacter pre opt =
     (if truthy_str triggerCharacter \<and> api_lt apiVersion v290 then
        (if triggerCharacter = Some ''@'' then
           (if synnameIsString opt then Some True
            else if \<not> re_at_start rx_jsdoc_line pre \<and> \<not> re_search rx_jsdoc_open pre
            then Some False
            else None)
         else if triggerCharacter = Some ''<'' then Some False
         else None)
      else None)"

definition shouldTrigger ::
  "api_version \<Rightarrow> string option \<Rightarrow> string \<Rightarrow> complete_option \<Rightarrow> CompletionConfiguration \<Rightarrow> bool"
where
  "shouldTrigger apiVersion triggerCharacter pre opt configuration =
     (case shouldTrigger_legacy apiVersion triggerCharacter pre opt of
        Some b \<Rightarrow> b
      | None \<Rightarrow>
          (if triggerCharacter = Some '' '' then
             (if \<not> importStatementSuggestions configuration \<or> \<not> api_lt apiVersion v430
              then False
              else pre = ''import '')
           else True))"

section \<open>Protocol records\<close>

record position =
  line :: nat
  character :: nat

record lsp_range =
  range_start :: position
  range_end :: position

record text_edit =
  edit_range :: lsp_range
  edit_newText :: string

record location =
  loc_line :: nat
  loc_offset :: nat

record code_edit =
  ce_start :: location
  ce_end :: location
  ce_newText :: string

record symbol_display_part =
  part_text :: string
  part_kind :: string

record jsdoc_tag =
  tag_name :: string
  tag_text :: "string option"

record file_code_edits =
  fileName :: string
  textChanges :: "code_edit list"

text \<open>
  A code action of the protocol. The source reads \<open>changes\<close> behind a guard in one place,
  so the field is optional here, as \<open>commands\<close> is (an opaque list).
\<close>

record code_action =
  description :: string
  changes :: "file_code_edits list option"
  commands :: "string list option"

record completion_entry_details =
  detail_name :: string
  detail_kind :: string
  displayParts :: "symbol_display_part list"
  detail_documentation :: "symbol_display_part list option"
  tags :: "jsdoc_tag list option"
  codeActions :: "code_action list option"
  detail_source :: "symbol_display_part list option"

datatype markup_kind = PlainText_markup | Markdown

record markup_content =
  markup_kind :: markup_kind
  markup_value :: string

text \<open>The deferred command: its only argument is the list of stripped code actions.\<close>

record command =
  cmd_title :: string
  cmd_command :: string
  cmd_arguments :: "code_action list list"

datatype insert_text_format = PlainText | Snippet

text \<open>The correlation data an item carries from list assembly to resolution.\<close>

record item_data =
  data_uri :: string
  data_position :: position
  data_source :: "string option"
  data_name :: string
  data_data :: "string option"
  isSnippet :: bool

record completion_item =
  label :: string
  insertText :: "string option"
  insertTextFormat :: "insert_text_format option"
  item_detail :: "string option"
  documentation :: "markup_content option"
  item_command :: "command option"
  additionalTextEdits :: "text_edit list option"
  data :: "item_data option"

subsection \<open>The backend\<close>

text \<open>
  A request either rejects (with the message of the error) or resolves to a response of
  type \<open>response\<close> (with or without a body), \<open>cancelled\<close> or \<open>noContent\<close>.
\<close>

record response_metadata =
  md_isIncomplete :: "bool option"

datatype 'a server_response =
    Response "'a option" "response_metadata option"
  | Cancelled
  | NoContent

datatype 'a exec_result = Rejected string | Fulfilled "'a server_response"

datatype entry_identifier =
    EntryName string
  | EntryIdent string string "string option"

record file_location =
  loc_file :: string
  loc_position :: position

record details_args =
  da_location :: file_location
  entryNames :: "entry_identifier list"

record quickinfo_body =
  qi_kind :: string
  qi_displayString :: string

record completion_entry =
  entry_name :: string
  entry_kind :: string
  entry_sortText :: string
  entry_insertText :: "string option"
  hasAction :: bool
  entry_source :: "string option"
  entry_data :: "string option"

record completion_info =
  ci_isNewIdentifierLocation :: bool
  ci_isMemberCompletion :: bool
  ci_isIncomplete :: "bool option"
  ci_entries :: "completion_entry list"

record completions_args =
  ca_location :: file_location
  includeExternalModuleExports :: bool
  includeInsertTextCompletions :: bool
  ca_triggerCharacter :: "string option"

text \<open>
  The service client: how it maps a document to a path, its capability version, whether
  typings are being acquired, and what the backend answers to each request
  (\<open>exec_configure\<close>: the error message when pushing the configuration of the document
  fails).
\<close>

record client =
  toPath :: "string \<Rightarrow> string option"
  apiVersion :: api_version
  isAcquiringTypings :: bool
  exec_configure :: "string \<Rightarrow> string option"
  exec_completionInfo :: "completions_args \<Rightarrow> completion_info exec_result"
  exec_completions :: "completions_args \<Rightarrow> completion_entry list exec_result"
  exec_completionEntryDetails ::
    "details_args \<Rightarrow> completion_entry_details option list exec_result"
  exec_quickinfo :: "file_location \<Rightarrow> quickinfo_body exec_result"

subsection \<open>Collaborators outside the provider\<close>

text \<open>
  A snippet under construction is the list of the parts appended so far: escaped text, a
  placeholder with its default text, or a tab stop (\<open>None\<close>: numbered by the builder).
\<close>

datatype snippet_part = SText string | SPlaceholder string | STabstop "nat option"

record parameter_list_parts =
  parts :: "symbol_display_part list"
  hasOptionalParameters :: bool

text \<open>
  The helpers the provider calls and does not define: the previewer, the conversion of a
  code edit, the parameter list of a signature, and the text of a finished snippet.
\<close>

record helpers =
  plainWithLinks :: "symbol_display_part list option \<Rightarrow> string"
  tagsMarkdownPreview :: "jsdoc_tag list option \<Rightarrow> string"
  fromCodeEdit :: "code_edit \<Rightarrow> text_edit"
  getParameterListParts :: "symbol_display_part list \<Rightarrow> parameter_list_parts"
  snippet_value :: "snippet_part list \<Rightarrow> string"

text \<open>The provider's only field: the line of the last completion request.\<close>

record provider =
  currentLine :: "string option"

section \<open>Code action splitter\<close>

definition ApplyCompletionCodeActionCommand_ID :: string where
  "ApplyCompletionCodeActionCommand_ID = ''_typescript.applyCompletionCodeAction''"

record code_actions_result =
  result_command :: "command option"
  result_additionalTextEdits :: "text_edit list option"

text \<open>
  The scanning loops of \<open>getCodeActions\<close>, over the pair of the inline edits gathered so
  far and the flag \<open>hasRemainingCommandsOrEdits\<close>: the inner loop over the changes of one
  action, the outer loop over the actions.
\<close>

fun scan_changes ::
  "(code_edit \<Rightarrow> text_edit) \<Rightarrow> string \<Rightarrow> file_code_edits list \<Rightarrow> text_edit list \<times> bool
     \<Rightarrow> text_edit list \<times> bool"
where
  "scan_changes conv filepath [] st = st"
| "scan_changes conv filepath (change # rest) (edits, remaining) =
     (if fileName change = filepath
      then scan_changes conv filepath rest (edits @ map conv (textChanges change), remaining)
      else scan_changes conv filepath rest (edits, True))"

fun scan_actions ::
  "(code_edit \<Rightarrow> text_edit) \<Rightarrow> string \<Rightarrow> code_action list \<Rightarrow> text_edit list \<times> bool
     \<Rightarrow> text_edit list \<times> bool"
where
  "scan_actions conv filepath [] st = st"
| "scan_actions conv filepath (tsAction # rest) (edits, remaining) =
     (let remaining1 = (if commands tsAction \<noteq> None then True else remaining);
          st1 = (case changes tsAction of
                   Some chs \<Rightarrow> scan_changes conv filepath chs (edits, remaining1)
                 | None \<Rightarrow> (edits, remaining1))
      in scan_actions conv filepath rest st1)"

text \<open>
  The payload of the deferred command: \<open>detail.codeActions.map(...)\<close>. Reading
  \<open>x.changes.filter\<close> on an action without \<open>changes\<close> throws.
\<close>

fun strip_actions :: "string \<Rightarrow> code_action list \<Rightarrow> error + code_action list" where
  "strip_actions filepath [] = Inr []"
| "strip_actions filepath (x # xs) =
     (case changes x of
        None \<Rightarrow> Inl TypeError
      | Some chs \<Rightarrow>
          (case strip_actions filepath xs of
             Inl e \<Rightarrow> Inl e
           | Inr ys \<Rightarrow>
               Inr (\<lparr>description = description x,
                     changes = Some (filter (\<lambda>c. fileName c \<noteq> filepath) chs),
                     commands = commands x\<rparr> # ys)))"

definition getCodeActions ::
  "helpers \<Rightarrow> completion_entry_details \<Rightarrow> string \<Rightarrow> error + code_actions_result"
where
  "getCodeActions hs detail filepath =
     (case codeActions detail of
        None \<Rightarrow> Inr \<lparr>result_command = None, result_additionalTextEdits = None\<rparr>
      | Some actions \<Rightarrow>
          if length actions = 0
          then Inr \<lparr>result_command = None, result_additionalTextEdits = None\<rparr>
          else
            (let (edits, hasRemainingCommandsOrEdits) =
                   scan_actions (fromCodeEdit hs) filepath actions ([], False)
             in if hasRemainingCommandsOrEdits then
                  (case strip_actions filepath actions of
                     Inl e \<Rightarrow> Inl e
                   | Inr stripped \<Rightarrow>
                       Inr \<lparr>result_command =
                              Some \<lparr>cmd_title = [],
                                    cmd_command = ApplyCompletionCodeActionCommand_ID,
                                    cmd_arguments = [stripped]\<rparr>,
                            result_additionalTextEdits =
                              (if length edits \<noteq> 0 then Some edits else None)\<rparr>)
                else
                  Inr \<lparr>result_command = None,
                       result_additionalTextEdits =
                         (if length edits \<noteq> 0 then Some edits else None)\<rparr>))"

section \<open>Documentation\<close>

definition getDocumentation :: "helpers \<Rightarrow> completion_entry_details \<Rightarrow> markup_content option"
where
  "getDocumentation hs detail =
     (let documentation0 = [];
          documentation1 =
            (case detail_source detail of
               Some src \<Rightarrow>
                 (let importPath = [CHR 0x27] @ plainWithLinks hs (Some src) @ [CHR 0x27];
                      autoImportLabel = ''Auto import from '' @ importPath
                  in documentation0 @ autoImportLabel @ [CHR 0x0A])
             | None \<Rightarrow> documentation0);
          parts0 = [plainWithLinks hs (detail_documentation detail),
                    tagsMarkdownPreview hs (tags detail)];
          parts1 = filter (\<lambda>s. s \<noteq> [] \<and> js_trim s \<noteq> []) parts0;
          documentation2 = documentation1 @ js_join [CHR 0x0A, CHR 0x0A] parts1
      in if length documentation2 \<noteq> 0
         then Some \<lparr>markup_kind = Markdown, markup_value = documentation2\<rparr>
         else None)"

section \<open>Function-call snippet\<close>

text \<open>
  \<open>appendJoinedPlaceholders\<close>: a placeholder for each part, and the joiner after every
  part but the last.
\<close>

fun appendJoinedPlaceholders ::
  "snippet_part list \<Rightarrow> symbol_display_part list \<Rightarrow> string \<Rightarrow> snippet_part list"
where
  "appendJoinedPlaceholders snippet [] joiner = snippet"
| "appendJoinedPlaceholders snippet [p] joiner = snippet @ [SPlaceholder (part_text p)]"
| "appendJoinedPlaceholders snippet (p # q # ps) joiner =
     appendJoinedPlaceholders (snippet @ [SPlaceholder (part_text p), SText joiner]) (q # ps) joiner"

definition functionCallSnippet ::
  "helpers \<Rightarrow> completion_item \<Rightarrow> completion_entry_details \<Rightarrow> snippet_part list"
where
  "functionCallSnippet hs item detail =
     (let parameterListParts = getParameterListParts hs (displayParts detail);
          snippet0 = [];
          snippet1 = snippet0 @
            [SText ((case insertText item of Some t \<Rightarrow> t | None \<Rightarrow> label item) @ ''('')];
          snippet2 = appendJoinedPlaceholders snippet1 (parts parameterListParts) '', '';
          snippet3 = (if hasOptionalParameters parameterListParts
                      then snippet2 @ [STabstop None] else snippet2);
          snippet4 = snippet3 @ [SText '')''];
          snippet5 = snippet4 @ [STabstop (Some 0)]
      in snippet5)"

definition createSnippetOfFunctionCall ::
  "helpers \<Rightarrow> completion_item \<Rightarrow> completion_entry_details \<Rightarrow> completion_item"
where
  "createSnippetOfFunctionCall hs item detail =
     item\<lparr>insertText := Some (snippet_value hs (functionCallSnippet hs item detail))\<rparr>"

text \<open>\<open>/^[a-z_$0-9]*\s*\(/gi\<close>\<close>

definition rx_call :: rx where
  "rx_call =
     Seq (Star (Cls (\<lambda>c. (97 \<le> (of_char c :: nat) \<and> (of_char c :: nat) \<le> 122)
                        \<or> (65 \<le> (of_char c :: nat) \<and> (of_char c :: nat) \<le> 90)
                        \<or> c = CHR ''_'' \<or> c = CHR ''$''
                        \<or> (48 \<le> (of_char c :: nat) \<and> (of_char c :: nat) \<le> 57))))
       (Seq (Star (Cls js_isSpace)) (Chr CHR ''(''))"

text \<open>
  \<open>isValidFunctionCompletionContext\<close>. A failure of the quickinfo request is caught;
  reading the current line is outside the \<open>try\<close> block.
\<close>

definition isValidFunctionCompletionContext ::
  "client \<Rightarrow> provider \<Rightarrow> string \<Rightarrow> position \<Rightarrow> error + bool"
where
  "isValidFunctionCompletionContext cl this filepath pos =
     (let args = \<lparr>loc_file = filepath, loc_position = pos\<rparr>;
          rejected =
            (case exec_quickinfo cl args of
               Fulfilled (Response (Some body) md) \<Rightarrow>
                 qi_kind body = ''var'' \<or> qi_kind body = ''let''
                   \<or> qi_kind body = ''const'' \<or> qi_kind body = ''alias''
             | _ \<Rightarrow> False)
      in if rejected then Inr False
         else
           (case currentLine this of
              None \<Rightarrow> Inl TypeError
            | Some ln \<Rightarrow>
                (let after = js_slice_from ln (character pos)
                 in Inr (\<not> re_at_start rx_call after))))"

section \<open>Resolution pipeline\<close>

text \<open>
  What a call of \<open>resolveCompletionItem\<close> does: it returns the item it was given (the
  same object), returns \<open>undefined\<close>, or throws. The item is updated in place, so the
  model returns, with the outcome, the item as the call leaves it.
\<close>

datatype outcome = ReturnsItem | ReturnsUndefined | Throws error

text \<open>The part of \<open>resolveCompletionItem\<close> after the first detail has been found.\<close>

definition resolveWithDetail ::
  "client \<Rightarrow> helpers \<Rightarrow> provider \<Rightarrow> completion_item \<Rightarrow> item_data \<Rightarrow> string
     \<Rightarrow> string option \<Rightarrow> completion_entry_details \<Rightarrow> outcome \<times> completion_item"
where
  "resolveWithDetail cl hs this item d filepath previousInsert detail =
     (let item1 = (if \<not> truthy_str (item_detail item) \<and> length (displayParts detail) \<noteq> 0
                   then item\<lparr>item_detail := Some (plainWithLinks hs (Some (displayParts detail)))\<rparr>
                   else item);
          item2 = item1\<lparr>documentation := getDocumentation hs detail\<rparr>
      in case getCodeActions hs detail filepath of
           Inl e \<Rightarrow> (Throws e, item2)
         | Inr r \<Rightarrow>
             (let item3 = (if result_command r \<noteq> None
                           then item2\<lparr>item_command := result_command r\<rparr> else item2);
                  item4 = item3\<lparr>additionalTextEdits := result_additionalTextEdits r\<rparr>
              in if \<not> isSnippet d \<and> insertTextFormat item4 = Some Snippet then
                   (let item5 = item4\<lparr>data := Some (d\<lparr>isSnippet := True\<rparr>)\<rparr>
                    in case isValidFunctionCompletionContext cl this filepath (data_position d) of
                         Inl e \<Rightarrow> (Throws e, item5)
                       | Inr shouldCompleteFunction \<Rightarrow>
                           if shouldCompleteFunction \<and> previousInsert = insertText item5
                           then (ReturnsItem, createSnippetOfFunctionCall hs item5 detail)
                           else (ReturnsItem, item5))
                 else (ReturnsItem, item4)))"

text \<open>The request for the details of the one entry the item stands for.\<close>

definition detailsArgs :: "string \<Rightarrow> item_data \<Rightarrow> details_args" where
  "detailsArgs filepath d =
     \<lparr>da_location = \<lparr>loc_file = filepath, loc_position = data_position d\<rparr>,
      entryNames =
        [if truthy_str (data_source d)
         then EntryIdent (data_name d) (the (data_source d)) (data_data d)
         else EntryName (data_name d)]\<rparr>"

definition resolveItem ::
  "client \<Rightarrow> helpers \<Rightarrow> provider \<Rightarrow> completion_item \<Rightarrow> outcome \<times> completion_item"
where
  "resolveItem cl hs this item =
     (case data item of
        None \<Rightarrow> (Throws TypeError, item)
      | Some d \<Rightarrow>
          (let filepath = toPath cl (data_uri d)
           in if \<not> truthy_str filepath then (ReturnsUndefined, item)
              else
                (let previousInsert = insertText item;
                     args = detailsArgs (the filepath) d
                 in case exec_completionEntryDetails cl args of
                      Rejected msg \<Rightarrow> (ReturnsItem, item)
                    | Fulfilled response \<Rightarrow>
                        (case response of
                           Response (Some body) md \<Rightarrow>
                             (if length body = 0 then (ReturnsItem, item)
                              else
                                (case js_index body 0 of
                                   Some (Some detail) \<Rightarrow>
                                     resolveWithDetail cl hs this item d (the filepath)
                                       previousInsert detail
                                 | _ \<Rightarrow> (ReturnsItem, item)))
                         | _ \<Rightarrow> (ReturnsItem, item)))))"

text \<open>\<open>resolveCompletionItem\<close>: \<open>None\<close> is the item \<open>null\<close> or \<open>undefined\<close>.\<close>

definition resolveCompletionItem ::
  "client \<Rightarrow> helpers \<Rightarrow> provider \<Rightarrow> completion_item option
     \<Rightarrow> outcome \<times> completion_item option"
where
  "resolveCompletionItem cl hs this item =
     (case item of
        None \<Rightarrow> (ReturnsUndefined, None)
      | Some it \<Rightarrow>
          (case resolveItem cl hs this it of (res, it') \<Rightarrow> (res, Some it')))"

section \<open>List assembly\<close>

text \<open>
  Modelled from the spec: the kind tags of \<open>protocol.const\<close> (not among the sources) that
  the entry filter compares with.
\<close>

definition Kind_warning :: string where "Kind_warning = ''warning''"
definition Kind_directory :: string where "Kind_directory = ''directory''"
definition Kind_script :: string where "Kind_script = ''script''"
definition Kind_externalModuleName :: string where
  "Kind_externalModuleName = ''external module name''"

definition shouldExcludeCompletionEntry ::
  "completion_entry \<Rightarrow> CompletionConfiguration \<Rightarrow> bool"
where
  "shouldExcludeCompletionEntry element completionConfiguration =
     ((\<not> nameSuggestions completionConfiguration \<and> entry_kind element = Kind_warning)
      \<or> (\<not> pathSuggestions completionConfiguration \<and>
           (entry_kind element = Kind_directory \<or> entry_kind element = Kind_script
            \<or> entry_kind element = Kind_externalModuleName))
      \<or> (\<not> autoImportSuggestions completionConfiguration \<and> hasAction element))"

text \<open>
  The document of the editor: its lines, and \<open>getText\<close> for a range within one line,
  the only ranges the provider asks for: the characters of that line between the two
  ends of the range (nothing when the document has no such line).
\<close>

record document =
  doc_uri :: string
  doc_lines :: "string list"

definition getText :: "document \<Rightarrow> lsp_range \<Rightarrow> string" where
  "getText doc r =
     (let a = character (range_start r); b = character (range_end r);
          ln = (case js_index (doc_lines doc) (line (range_start r)) of
                  None \<Rightarrow> [] | Some l \<Rightarrow> l)
      in take (max a b - min a b) (drop (min a b) ln))"

record completion_context =
  ctx_triggerCharacter :: "string option"
  ctx_option :: complete_option

record DotAccessorContext =
  dac_range :: lsp_range
  dac_text :: string

record convert_context =
  cc_line :: "string option"
  cc_triggerCharacter :: "string option"
  isNewIdentifierLocation :: bool
  isMemberCompletion :: bool
  enableCallCompletions :: bool
  isInValidCommitCharacterContext_flag :: bool
  dotAccessorContext :: "DotAccessorContext option"

record completion_list =
  isIncomplete :: bool
  items :: "completion_item list"

text \<open>\<open>/\??\.\s*$/\<close> without its anchor, and \<open>/(\s|^)\.$/\<close> with both alternatives
  of the group written out: white space before the dot anywhere, or the dot alone.\<close>

definition rx_dot :: rx where
  "rx_dot = Seq (Opt (Chr CHR ''?'')) (Seq (Chr CHR ''.'') (Star (Cls js_isSpace)))"

definition rx_lone_dot :: rx where
  "rx_lone_dot =
     Alt (Seq AnyStar (Seq (Cls js_isSpace) (Chr CHR ''.''))) (Chr CHR ''.'')"

text \<open>
  The accessor context of a member completion (the block under
  \<open>if (isMemberCompletion)\<close>): \<open>dotMatch\<close> is the match array, and the range starts
  \<open>dotMatch.length\<close> characters before the cursor.
\<close>

definition memberDotAccessorContext ::
  "document \<Rightarrow> position \<Rightarrow> string \<Rightarrow> DotAccessorContext option"
where
  "memberDotAccessorContext doc pos preText =
     (case re_match_to_end rx_dot (js_slice_to preText (character pos)) of
        None \<Rightarrow> None
      | Some dotMatch \<Rightarrow>
          (let range = \<lparr>range_start =
                          \<lparr>line = line pos, character = character pos - length dotMatch\<rparr>,
                        range_end = pos\<rparr>;
               text = getText doc range
           in Some \<lparr>dac_range = range, dac_text = text\<rparr>))"

definition isInValidCommitCharacterContext :: "client \<Rightarrow> document \<Rightarrow> position \<Rightarrow> bool" where
  "isInValidCommitCharacterContext cl doc pos =
     (if api_lt (apiVersion cl) v320 \<and> character pos > 1 then
        (let preText = getText doc
               \<lparr>range_start = \<lparr>line = line pos, character = 0\<rparr>,
                range_end = \<lparr>line = line pos, character = character pos\<rparr>\<rparr>
         in \<not> accepts rx_lone_dot preText)
      else True)"

definition getTsTriggerCharacter :: "client \<Rightarrow> completion_context \<Rightarrow> string option" where
  "getTsTriggerCharacter cl context =
     (let tc = ctx_triggerCharacter context
      in if tc = Some ''@'' then
           (if api_gte (apiVersion cl) v310 \<and> api_lt (apiVersion cl) v320
            then None else Some ''@'')
         else if tc = Some ''#'' then
           (if api_lt (apiVersion cl) v381 then None else Some ''#'')
         else if tc = Some '' '' then
           (if api_gte (apiVersion cl) v430 then Some '' '' else None)
         else if tc = Some ''.'' \<or> tc = Some [CHR 0x22] \<or> tc = Some [CHR 0x27]
                 \<or> tc = Some [CHR 0x60] \<or> tc = Some ''/'' \<or> tc = Some ''<''
         then tc
         else None)"

text \<open>
  The loop over the entries: an excluded entry is skipped, every other entry is converted
  and pushed onto the items.
\<close>

fun collectItems ::
  "(completion_entry \<Rightarrow> completion_item) \<Rightarrow> CompletionConfiguration \<Rightarrow> completion_entry list
     \<Rightarrow> completion_item list \<Rightarrow> completion_item list"
where
  "collectItems convert completionConfiguration [] completionItems = completionItems"
| "collectItems convert completionConfiguration (element # rest) completionItems =
     (if shouldExcludeCompletionEntry element completionConfiguration
      then collectItems convert completionConfiguration rest completionItems
      else collectItems convert completionConfiguration rest
             (completionItems @ [convert element]))"

text \<open>
  \<open>provideCompletionItems\<close>. The result is the list (\<open>None\<close> is \<open>null\<close>) or the error
  the call throws, with the provider as the call leaves it. \<open>convertCompletionEntry\<close> is
  the conversion of an entry, defined outside the provider; \<open>config\<close> is the configuration
  of the workspace for the language of the provider and the document.
\<close>

definition provideCompletionItems ::
  "client
     \<Rightarrow> (completion_entry \<Rightarrow> string \<Rightarrow> position \<Rightarrow> convert_context \<Rightarrow> completion_item)
     \<Rightarrow> (string \<Rightarrow> bool option) \<Rightarrow> provider \<Rightarrow> document \<Rightarrow> position \<Rightarrow> completion_context
     \<Rightarrow> (error + completion_list option) \<times> provider"
where
  "provideCompletionItems cl convertCompletionEntry config this doc pos context =
     (if isAcquiringTypings cl then
        (Inr (Some \<lparr>isIncomplete = True,
                    items = [\<lparr>label = ''Acquiring typings...'', insertText = None,
                              insertTextFormat = None,
                              item_detail = Some ''Acquiring typings definitions for IntelliSense.'',
                              documentation = None, item_command = None,
                              additionalTextEdits = None, data = None\<rparr>]\<rparr>), this)
      else
        (let uri = doc_uri doc; file = toPath cl uri
         in if \<not> truthy_str file then (Inr None, this)
            else
              (let preText = getText doc
                     \<lparr>range_start = \<lparr>line = line pos, character = 0\<rparr>, range_end = pos\<rparr>;
                   ln = js_index (doc_lines doc) (line pos);
                   triggerCharacter = ctx_triggerCharacter context;
                   opt = ctx_option context;
                   completionConfiguration = getConfigurationForResource config
               in if \<not> shouldTrigger (apiVersion cl) triggerCharacter preText opt
                          completionConfiguration
                  then (Inr None, this)
                  else
                    (let this1 = this\<lparr>currentLine := js_index (doc_lines doc) (line pos)\<rparr>
                     in case exec_configure cl uri of
                          Some msg \<Rightarrow> (Inl (BackendError msg), this1)
                        | None \<Rightarrow>
                            (let args = \<lparr>ca_location =
                                          \<lparr>loc_file = the file, loc_position = pos\<rparr>,
                                        includeExternalModuleExports =
                                          autoImportSuggestions completionConfiguration,
                                        includeInsertTextCompletions = True,
                                        ca_triggerCharacter = getTsTriggerCharacter cl context\<rparr>;
                                 valid = isInValidCommitCharacterContext cl doc pos;
                                 assemble = (\<lambda>entries newId member incomplete dac.
                                   (Inr (Some \<lparr>isIncomplete = incomplete,
                                      items = collectItems
                                        (\<lambda>element. convertCompletionEntry element uri pos
                                           \<lparr>cc_line = ln,
                                            cc_triggerCharacter = triggerCharacter,
                                            isNewIdentifierLocation = newId,
                                            isMemberCompletion = member,
                                            enableCallCompletions =
                                              useCodeSnippetsOnMethodSuggest completionConfiguration,
                                            isInValidCommitCharacterContext_flag = valid,
                                            dotAccessorContext = dac\<rparr>)
                                        completionConfiguration entries []\<rparr>), this1))
                             in if api_gte (apiVersion cl) v300 then
                                  (case exec_completionInfo cl args of
                                     Rejected msg \<Rightarrow>
                                       (if msg = ''No content available.'' then (Inr None, this1)
                                        else (Inl (BackendError msg), this1))
                                   | Fulfilled (Response (Some body) md) \<Rightarrow>
                                       assemble (ci_entries body)
                                         (ci_isNewIdentifierLocation body)
                                         (ci_isMemberCompletion body)
                                         (ci_isIncomplete body = Some True
                                            \<or> (case md of None \<Rightarrow> False
                                                | Some m \<Rightarrow> md_isIncomplete m = Some True))
                                         (if ci_isMemberCompletion body
                                          then memberDotAccessorContext doc pos preText
                                          else None)
                                   | Fulfilled _ \<Rightarrow> (Inr None, this1))
                                else
                                  (case exec_completions cl args of
                                     Rejected msg \<Rightarrow> (Inl (BackendError msg), this1)
                                   | Fulfilled (Response (Some body) md) \<Rightarrow>
                                       assemble body True False False None
                                   | Fulfilled _ \<Rightarrow> (Inr None, this1)))))))"

section \<open>Sample collaborators and inputs\<close>

text \<open>
  One choice of the helpers, of the client and of the data, on which the definitions above
  are run: the previewer joins the texts of the parts, the parameter list keeps the
  parameter names that no \<open>?\<close> follows, and a snippet is written with numbered stops.
\<close>

definition ex_plainWithLinks :: "symbol_display_part list option \<Rightarrow> string" where
  "ex_plainWithLinks ps = (case ps of None \<Rightarrow> [] | Some l \<Rightarrow> concat (map part_text l))"

definition ex_tagsMarkdownPreview :: "jsdoc_tag list option \<Rightarrow> string" where
  "ex_tagsMarkdownPreview ts =
     (case ts of None \<Rightarrow> [] | Some l \<Rightarrow> js_join '', '' (map (\<lambda>t. ''@'' @ tag_name t) l))"

definition ex_fromCodeEdit :: "code_edit \<Rightarrow> text_edit" where
  "ex_fromCodeEdit e =
     \<lparr>edit_range =
        \<lparr>range_start = \<lparr>line = loc_line (ce_start e) - 1, character = loc_offset (ce_start e) - 1\<rparr>,
         range_end = \<lparr>line = loc_line (ce_end e) - 1, character = loc_offset (ce_end e) - 1\<rparr>\<rparr>,
      edit_newText = ce_newText e\<rparr>"

fun ex_requiredParameters :: "symbol_display_part list \<Rightarrow> symbol_display_part list" where
  "ex_requiredParameters [] = []"
| "ex_requiredParameters [p] = (if part_kind p = ''parameterName'' then [p] else [])"
| "ex_requiredParameters (p # q # ps) =
     (if part_kind p = ''parameterName'' \<and> part_text q \<noteq> ''?''
      then p # ex_requiredParameters (q # ps)
      else ex_requiredParameters (q # ps))"

definition ex_getParameterListParts :: "symbol_display_part list \<Rightarrow> parameter_list_parts" where
  "ex_getParameterListParts ps =
     \<lparr>parts = ex_requiredParameters ps,
      hasOptionalParameters = list_ex (\<lambda>p. part_text p = ''?'') ps\<rparr>"

definition ex_digit :: "nat \<Rightarrow> string" where
  "ex_digit n =
     (if n = 0 then ''0'' else if n = 1 then ''1'' else if n = 2 then ''2''
      else if n = 3 then ''3'' else if n = 4 then ''4'' else ''9'')"

fun ex_render :: "nat \<Rightarrow> snippet_part list \<Rightarrow> string" where
  "ex_render n [] = []"
| "ex_render n (SText t # rest) = t @ ex_render n rest"
| "ex_render n (SPlaceholder t # rest) =
     ''${'' @ ex_digit n @ '':'' @ t @ ''}'' @ ex_render (n + 1) rest"
| "ex_render n (STabstop None # rest) = ''$'' @ ex_digit n @ ex_render (n + 1) rest"
| "ex_render n (STabstop (Some k) # rest) = ''$'' @ ex_digit k @ ex_render n rest"

definition ex_helpers :: helpers where
  "ex_helpers =
     \<lparr>plainWithLinks = ex_plainWithLinks,
      tagsMarkdownPreview = ex_tagsMarkdownPreview,
      fromCodeEdit = ex_fromCodeEdit,
      getParameterListParts = ex_getParameterListParts,
      snippet_value = ex_render 1\<rparr>"

definition ex_part :: "string \<Rightarrow> string \<Rightarrow> symbol_display_part" where
  "ex_part k t = \<lparr>part_text = t, part_kind = k\<rparr>"

text \<open>The signature \<open>foo(a, b, c?)\<close>.\<close>

definition ex_displayParts :: "symbol_display_part list" where
  "ex_displayParts =
     [ex_part ''functionName'' ''foo'', ex_part ''punctuation'' ''('',
      ex_part ''parameterName'' ''a'', ex_part ''punctuation'' '','',
      ex_part ''parameterName'' ''b'', ex_part ''punctuation'' '','',
      ex_part ''parameterName'' ''c'', ex_part ''punctuation'' ''?'',
      ex_part ''punctuation'' '')'']"

definition ex_edit :: "nat \<Rightarrow> string \<Rightarrow> code_edit" where
  "ex_edit l t =
     \<lparr>ce_start = \<lparr>loc_line = l, loc_offset = 1\<rparr>, ce_end = \<lparr>loc_line = l, loc_offset = 1\<rparr>,
      ce_newText = t\<rparr>"

definition ex_change_cur :: file_code_edits where
  "ex_change_cur = \<lparr>fileName = ''/a.ts'', textChanges = [ex_edit 1 ''import { foo } from lib'']\<rparr>"

definition ex_change_oth :: file_code_edits where
  "ex_change_oth = \<lparr>fileName = ''/b.ts'', textChanges = [ex_edit 7 ''export { foo }'']\<rparr>"

definition ex_action :: code_action where
  "ex_action =
     \<lparr>description = ''Import foo'', changes = Some [ex_change_cur, ex_change_oth],
      commands = None\<rparr>"

text \<open>An action that carries commands and no \<open>changes\<close>.\<close>

definition ex_action_commands_only :: code_action where
  "ex_action_commands_only =
     \<lparr>description = ''Install typings'', changes = None, commands = Some [''install'']\<rparr>"

definition ex_detail :: completion_entry_details where
  "ex_detail =
     \<lparr>detail_name = ''foo'', detail_kind = ''function'', displayParts = ex_displayParts,
      detail_documentation = Some [ex_part ''text'' ''Does foo.''],
      tags = None, codeActions = Some [ex_action],
      detail_source = Some [ex_part ''text'' ''lib'']\<rparr>"

text \<open>A detail with no documentation, no tags, no source and no code actions.\<close>

definition ex_detail_bare :: completion_entry_details where
  "ex_detail_bare =
     \<lparr>detail_name = ''foo'', detail_kind = ''function'', displayParts = ex_displayParts,
      detail_documentation = None, tags = None, codeActions = None, detail_source = None\<rparr>"

definition ex_data :: item_data where
  "ex_data =
     \<lparr>data_uri = ''file:///a.ts'', data_position = \<lparr>line = 0, character = 3\<rparr>,
      data_source = None, data_name = ''foo'', data_data = None, isSnippet = False\<rparr>"

definition ex_item :: completion_item where
  "ex_item =
     \<lparr>label = ''foo'', insertText = None, insertTextFormat = Some Snippet,
      item_detail = None, documentation = None, item_command = None,
      additionalTextEdits = None, data = Some ex_data\<rparr>"

text \<open>The same item once its snippet has been synthesized.\<close>

definition ex_item_resolved :: completion_item where
  "ex_item_resolved =
     ex_item\<lparr>insertText := Some ''foo(${1:a}, ${2:b}$3)$0'',
             data := Some (ex_data\<lparr>isSnippet := True\<rparr>)\<rparr>"

definition ex_toPath :: "string \<Rightarrow> string option" where
  "ex_toPath uri = (if uri = ''file:///a.ts'' then Some ''/a.ts'' else None)"

definition ex_noPath :: "string \<Rightarrow> string option" where
  "ex_noPath uri = None"

definition ex_configure :: "string \<Rightarrow> string option" where
  "ex_configure uri = None"

definition ex_entry :: "string \<Rightarrow> string \<Rightarrow> bool \<Rightarrow> completion_entry" where
  "ex_entry n k a =
     \<lparr>entry_name = n, entry_kind = k, entry_sortText = ''0'', entry_insertText = None,
      hasAction = a, entry_source = None, entry_data = None\<rparr>"

definition ex_entries :: "completion_entry list" where
  "ex_entries =
     [ex_entry ''foo'' ''warning'' False, ex_entry ''bar'' ''function'' False,
      ex_entry ''src'' ''directory'' False, ex_entry ''baz'' ''function'' True]"

definition ex_completionInfo :: "completions_args \<Rightarrow> completion_info exec_result" where
  "ex_completionInfo args =
     Fulfilled (Response (Some \<lparr>ci_isNewIdentifierLocation = False, ci_isMemberCompletion = True,
                                ci_isIncomplete = None, ci_entries = ex_entries\<rparr>) None)"

definition ex_completions :: "completions_args \<Rightarrow> completion_entry list exec_result" where
  "ex_completions args = Fulfilled (Response (Some ex_entries) None)"

definition ex_details ::
  "details_args \<Rightarrow> completion_entry_details option list exec_result"
where
  "ex_details args = Fulfilled (Response (Some [Some ex_detail]) None)"

definition ex_details_rejected ::
  "details_args \<Rightarrow> completion_entry_details option list exec_result"
where
  "ex_details_rejected args = Rejected ''request timed out''"

definition ex_details_empty ::
  "details_args \<Rightarrow> completion_entry_details option list exec_result"
where
  "ex_details_empty args = Fulfilled (Response (Some []) None)"

definition ex_quickinfo :: "file_location \<Rightarrow> quickinfo_body exec_result" where
  "ex_quickinfo args =
     Fulfilled (Response (Some \<lparr>qi_kind = ''function'', qi_displayString = ''function foo''\<rparr>) None)"

definition ex_client :: client where
  "ex_client =
     \<lparr>toPath = ex_toPath, apiVersion = (4, 2, 0), isAcquiringTypings = False,
      exec_configure = ex_configure, exec_completionInfo = ex_completionInfo,
      exec_completions = ex_completions, exec_completionEntryDetails = ex_details,
      exec_quickinfo = ex_quickinfo\<rparr>"

definition ex_client_noPath :: client where
  "ex_client_noPath = ex_client\<lparr>toPath := ex_noPath\<rparr>"

definition ex_client_rejected :: client where
  "ex_client_rejected = ex_client\<lparr>exec_completionEntryDetails := ex_details_rejected\<rparr>"

definition ex_client_empty :: client where
  "ex_client_empty = ex_client\<lparr>exec_completionEntryDetails := ex_details_empty\<rparr>"

definition ex_provider :: provider where
  "ex_provider = \<lparr>currentLine = Some ''foo''\<rparr>"

definition ex_config :: CompletionConfiguration where
  "ex_config =
     \<lparr>useCodeSnippetsOnMethodSuggest = False, nameSuggestions = True, pathSuggestions = True,
      autoImportSuggestions = True, importStatementSuggestions = True\<rparr>"

text \<open>A workspace without settings, and one that turns name suggestions off.\<close>

definition ex_workspace :: "string \<Rightarrow> bool option" where
  "ex_workspace key = None"

definition ex_workspace_noNames :: "string \<Rightarrow> bool option" where
  "ex_workspace_noNames key = (if key = ''suggest.names'' then Some False else None)"

definition ex_config_noNames :: CompletionConfiguration where
  "ex_config_noNames = ex_config\<lparr>nameSuggestions := False\<rparr>"

definition ex_option :: complete_option where
  "ex_option = \<lparr>synname = Some ''Comment''\<rparr>"

definition ex_document :: document where
  "ex_document = \<lparr>doc_uri = ''file:///a.ts'', doc_lines = [''foo?.'']\<rparr>"

definition ex_position :: position where
  "ex_position = \<lparr>line = 0, character = 5\<rparr>"

definition ex_context :: completion_context where
  "ex_context = \<lparr>ctx_triggerCharacter = Some ''.'', ctx_option = ex_option\<rparr>"

text \<open>The conversion context the sample request hands to the conversion of each entry.\<close>

definition ex_convert_context :: convert_context where
  "ex_convert_context =
     \<lparr>cc_line = Some ''foo?.'', cc_triggerCharacter = Some ''.'',
      isNewIdentifierLocation = False, isMemberCompletion = True,
      enableCallCompletions = False, isInValidCommitCharacterContext_flag = True,
      dotAccessorContext =
        Some \<lparr>dac_range = \<lparr>range_start = \<lparr>line = 0, character = 4\<rparr>,
                               range_end = \<lparr>line = 0, character = 5\<rparr>\<rparr>,
                dac_text = ''.''\<rparr>\<rparr>"

text \<open>The placeholder item of a provider that is acquiring typings.\<close>

definition ex_placeholder :: completion_item where
  "ex_placeholder =
     \<lparr>label = ''Acquiring typings...'', insertText = None, insertTextFormat = None,
      item_detail = Some ''Acquiring typings definitions for IntelliSense.'',
      documentation = None, item_command = None, additionalTextEdits = None, data = None\<rparr>"

definition ex_convert :: "completion_entry \<Rightarrow> completion_item" where
  "ex_convert e = ex_item\<lparr>label := entry_name e\<rparr>"

section \<open>Notions the properties are stated with\<close>

text \<open>A blank segment: nothing but white space (the empty string included).\<close>

definition isBlank :: "string \<Rightarrow> bool" where
  "isBlank s = list_all js_isSpace s"

text \<open>
  The two documentation-comment patterns as the specification writes them,
  \<open>^\s*\*\s?@\<close> and \<open>/\*\*+\s?@\<close>: any white space may stand before the \<open>@\<close>, where
  the literals of the source admit a blank only.
\<close>

definition spec_rx_jsdoc_line :: rx where
  "spec_rx_jsdoc_line =
     Seq (Star (Cls js_isSpace))
       (Seq (Chr CHR ''*'') (Seq (Opt (Cls js_isSpace)) (Chr CHR ''@'')))"

definition spec_rx_jsdoc_open :: rx where
  "spec_rx_jsdoc_open =
     Seq (Chr CHR ''/'') (Seq (Chr CHR ''*'') (Seq (Plus (Chr CHR ''*''))
       (Seq (Opt (Cls js_isSpace)) (Chr CHR ''@''))))"

text \<open>
  \<open>rx_le r s\<close>: \<open>s\<close> is \<open>r\<close> with some character classes widened (or some part of \<open>r\<close>
  that matches nothing replaced), so whatever matches \<open>r\<close> matches \<open>s\<close>.
\<close>

inductive rx_le :: "rx \<Rightarrow> rx \<Rightarrow> bool" where
  le_Never: "rx_le Never r"
| le_Eps: "rx_le Eps Eps"
| le_Cls: "(\<And>c. p c \<Longrightarrow> q c) \<Longrightarrow> rx_le (Cls p) (Cls q)"
| le_Seq: "rx_le r r' \<Longrightarrow> rx_le s s' \<Longrightarrow> rx_le (Seq r s) (Seq r' s')"
| le_Alt: "rx_le r r' \<Longrightarrow> rx_le s s' \<Longrightarrow> rx_le (Alt r s) (Alt r' s')"
| le_Star: "rx_le r r' \<Longrightarrow> rx_le (Star r) (Star r')"

section \<open>Auxiliary facts\<close>

lemmas ex_defs = ex_plainWithLinks_def ex_tagsMarkdownPreview_def ex_fromCodeEdit_def
  ex_getParameterListParts_def ex_digit_def ex_helpers_def ex_part_def ex_displayParts_def
  ex_edit_def ex_change_cur_def ex_change_oth_def ex_action_def ex_action_commands_only_def
  ex_detail_def ex_detail_bare_def ex_data_def ex_item_def ex_item_resolved_def ex_toPath_def
  ex_noPath_def ex_configure_def ex_entry_def ex_entries_def ex_completionInfo_def
  ex_completions_def ex_details_def ex_details_rejected_def ex_details_empty_def
  ex_quickinfo_def ex_client_def ex_client_noPath_def ex_client_rejected_def
  ex_client_empty_def ex_provider_def ex_config_def ex_config_noNames_def ex_option_def
  ex_document_def ex_position_def ex_convert_def ex_workspace_def ex_workspace_noNames_def
  ex_context_def ex_convert_context_def ex_placeholder_def

lemmas rx_defs = Chr_def ChrI_def Opt_def Plus_def AnyStar_def re_search_def re_at_start_def
  js_isSpace_def

subsection \<open>Widening a regular expression\<close>

lemma rx_le_refl: "rx_le r r"
  by (induction r) (auto intro: rx_le.intros)

lemma rx_le_nullable: "rx_le r s \<Longrightarrow> nullable r \<Longrightarrow> nullable s"
  by (induction rule: rx_le.induct) auto

lemma rx_le_deriv: "rx_le r s \<Longrightarrow> rx_le (deriv c r) (deriv c s)"
proof (induction rule: rx_le.induct)
  case (le_Seq r r' s s')
  then show ?case
    by (auto intro!: rx_le.intros dest: rx_le_nullable)
qed (auto intro!: rx_le.intros)

lemma rx_le_accepts: "rx_le r s \<Longrightarrow> accepts r w \<Longrightarrow> accepts s w"
proof (induction w arbitrary: r s)
  case Nil
  then show ?case by (simp add: rx_le_nullable)
next
  case (Cons c w)
  from Cons.prems have "rx_le (deriv c r) (deriv c s)" "accepts (deriv c r) w"
    by (simp_all add: rx_le_deriv)
  then show ?case using Cons.IH by simp
qed

lemma re_at_start_mono: "rx_le r s \<Longrightarrow> re_at_start r w \<Longrightarrow> re_at_start s w"
  unfolding re_at_start_def
  by (erule rx_le_accepts[rotated]) (intro rx_le.intros rx_le_refl)

lemma re_search_mono: "rx_le r s \<Longrightarrow> re_search r w \<Longrightarrow> re_search s w"
  unfolding re_search_def
  by (erule rx_le_accepts[rotated]) (intro rx_le.intros rx_le_refl)

lemma jsdoc_line_le: "rx_le rx_jsdoc_line spec_rx_jsdoc_line"
  unfolding rx_jsdoc_line_def spec_rx_jsdoc_line_def Opt_def Chr_def
  by (intro rx_le.intros rx_le_refl) (simp add: js_isSpace_def)

lemma jsdoc_open_le: "rx_le rx_jsdoc_open spec_rx_jsdoc_open"
  unfolding rx_jsdoc_open_def spec_rx_jsdoc_open_def Opt_def Chr_def
  by (intro rx_le.intros rx_le_refl) (simp add: js_isSpace_def)

subsection \<open>Blank segments\<close>

lemma dropWhile_all_iff: "(\<forall>c\<in>set (dropWhile P s). P c) = (\<forall>c\<in>set s. P c)"
proof
  assume a: "\<forall>c\<in>set (dropWhile P s). P c"
  have "dropWhile P s = []"
  proof (rule ccontr)
    assume n: "dropWhile P s \<noteq> []"
    then have "\<not> P (hd (dropWhile P s))" by (rule hd_dropWhile)
    moreover have "hd (dropWhile P s) \<in> set (dropWhile P s)" using n by simp
    ultimately show False using a by blast
  qed
  then show "\<forall>c\<in>set s. P c" by (simp add: dropWhile_eq_Nil_conv)
next
  assume "\<forall>c\<in>set s. P c"
  then show "\<forall>c\<in>set (dropWhile P s). P c" using set_dropWhileD by fastforce
qed

lemma js_trim_empty_iff: "(js_trim s = []) = isBlank s"
  by (simp add: js_trim_def isBlank_def dropWhile_eq_Nil_conv dropWhile_all_iff list_all_iff)

lemma kept_segment_iff: "(s \<noteq> [] \<and> js_trim s \<noteq> []) = (\<not> isBlank s)"
  by (auto simp: js_trim_empty_iff isBlank_def)

subsection \<open>The scanning loops\<close>

lemma strip_actions_absent_changes:
  "\<exists>a\<in>set actions. changes a = None \<Longrightarrow> strip_actions filepath actions = Inl TypeError"
proof (induction actions)
  case Nil
  then show ?case by simp
next
  case (Cons x xs)
  show ?case
  proof (cases "changes x")
    case None
    then show ?thesis by simp
  next
    case (Some chs)
    with Cons.prems have "\<exists>a\<in>set xs. changes a = None" by auto
    with Cons.IH Some show ?thesis by simp
  qed
qed

lemma scan_changes_remaining:
  "snd (scan_changes conv filepath chs (edits, True)) = True"
  by (induction chs arbitrary: edits) auto

lemma scan_actions_remaining:
  "snd (scan_actions conv filepath actions (edits, True)) = True"
proof (induction actions arbitrary: edits)
  case Nil
  then show ?case by simp
next
  case (Cons a actions)
  show ?case
  proof (cases "changes a")
    case None
    then show ?thesis using Cons.IH by simp
  next
    case (Some chs)
    obtain e where "scan_changes conv filepath chs (edits, True) = (e, True)"
      using scan_changes_remaining[of conv filepath chs edits]
      by (cases "scan_changes conv filepath chs (edits, True)") auto
    then show ?thesis using Some Cons.IH by simp
  qed
qed

lemma scan_actions_commands:
  "\<exists>a\<in>set actions. commands a \<noteq> None \<Longrightarrow>
     snd (scan_actions conv filepath actions (edits, remaining)) = True"
proof (induction actions arbitrary: edits remaining)
  case Nil
  then show ?case by simp
next
  case (Cons a actions)
  show ?case
  proof (cases "commands a \<noteq> None")
    case True
    show ?thesis
    proof (cases "changes a")
      case None
      then show ?thesis using True scan_actions_remaining by simp
    next
      case (Some chs)
      obtain e where "scan_changes conv filepath chs (edits, True) = (e, True)"
        using scan_changes_remaining[of conv filepath chs edits]
        by (cases "scan_changes conv filepath chs (edits, True)") auto
      then show ?thesis using True Some scan_actions_remaining by simp
    qed
  next
    case False
    then have ex: "\<exists>a\<in>set actions. commands a \<noteq> None" using Cons.prems by auto
    obtain e r where st: "(case changes a of
                   Some chs \<Rightarrow> scan_changes conv filepath chs (edits, remaining)
                 | None \<Rightarrow> (edits, remaining)) = (e, r)"
      by (cases "(case changes a of
                   Some chs \<Rightarrow> scan_changes conv filepath chs (edits, remaining)
                 | None \<Rightarrow> (edits, remaining))") auto
    show ?thesis using False Cons.IH[OF ex, of e r] st by simp
  qed
qed

lemma collectItems_acc:
  "collectItems conv cfg es acc
     = acc @ map conv (filter (\<lambda>e. \<not> shouldExcludeCompletionEntry e cfg) es)"
  by (induction es arbitrary: acc) auto

lemma resolveWithDetail_documentation:
  "documentation (snd (resolveWithDetail cl hs this item d filepath previousInsert detail))
     = getDocumentation hs detail"
  by (simp add: resolveWithDetail_def createSnippetOfFunctionCall_def Let_def
           split: sum.splits)

section \<open>Resolution degrades gracefully\<close>

text \<open>
  C1, as the code has it. For every item that carries its correlation data: when the file
  identity does not resolve to a path, \<open>resolveCompletionItem\<close> returns \<open>undefined\<close> and
  leaves the item as it was; when the path resolves and the request for the details
  rejects, or its response is cancelled, without content, without a body, empty, or has no
  first detail, it returns the item with no field changed. No error is thrown in either
  case.
\<close>

theorem resolve_degrades:
  assumes "data item = Some d"
  shows "(\<not> truthy_str (toPath cl (data_uri d)) \<longrightarrow>
            resolveCompletionItem cl hs this (Some item) = (ReturnsUndefined, Some item))
       \<and> (toPath cl (data_uri d) = Some fp \<and> fp \<noteq> [] \<and>
            exec_completionEntryDetails cl (detailsArgs fp d)
              \<in> {Rejected msg, Fulfilled Cancelled, Fulfilled NoContent,
                  Fulfilled (Response None md), Fulfilled (Response (Some []) md),
                  Fulfilled (Response (Some (None # rest)) md)} \<longrightarrow>
            resolveCompletionItem cl hs this (Some item) = (ReturnsItem, Some item))"
  using assms
  by (auto simp: resolveCompletionItem_def resolveItem_def truthy_str_def)

text \<open>
  The three cases on the sample item: no path, a rejected request, an empty response.
\<close>

theorem resolve_degrades_witness:
  "resolveCompletionItem ex_client_noPath ex_helpers ex_provider (Some ex_item)
     = (ReturnsUndefined, Some ex_item)
   \<and> resolveCompletionItem ex_client_rejected ex_helpers ex_provider (Some ex_item)
     = (ReturnsItem, Some ex_item)
   \<and> resolveCompletionItem ex_client_empty ex_helpers ex_provider (Some ex_item)
     = (ReturnsItem, Some ex_item)"
proof -
  have d: "data ex_item = Some ex_data" by (simp add: ex_item_def)
  have a: "\<not> truthy_str (toPath ex_client_noPath (data_uri ex_data))"
    by (simp add: truthy_str_def ex_client_noPath_def ex_noPath_def)
  have p1: "toPath ex_client_rejected (data_uri ex_data) = Some ''/a.ts''"
    by (simp add: ex_client_rejected_def ex_client_def ex_toPath_def ex_data_def)
  have p2: "toPath ex_client_empty (data_uri ex_data) = Some ''/a.ts''"
    by (simp add: ex_client_empty_def ex_client_def ex_toPath_def ex_data_def)
  have r: "exec_completionEntryDetails ex_client_rejected (detailsArgs ''/a.ts'' ex_data)
             = Rejected ''request timed out''"
    by (simp add: ex_client_rejected_def ex_details_rejected_def)
  have e: "exec_completionEntryDetails ex_client_empty (detailsArgs ''/a.ts'' ex_data)
             = Fulfilled (Response (Some []) None)"
    by (simp add: ex_client_empty_def ex_details_empty_def)
  show ?thesis
    using resolve_degrades[OF d, where cl = ex_client_noPath and hs = ex_helpers
                             and this = ex_provider] a
      resolve_degrades[OF d, where cl = ex_client_rejected and fp = "''/a.ts''"
                             and msg = "''request timed out''" and hs = ex_helpers
                             and this = ex_provider] p1 r
      resolve_degrades[OF d, where cl = ex_client_empty and fp = "''/a.ts''" and md = None
                             and hs = ex_helpers and this = ex_provider] p2 e
    by simp
qed

text \<open>
  The sample item carries its data, and its document has no path: the call returns
  \<open>undefined\<close>, not the item.
\<close>

theorem resolve_unresolved_path_counterexample:
  "data ex_item = Some ex_data
   \<and> toPath ex_client_noPath (data_uri ex_data) = None
   \<and> resolveCompletionItem ex_client_noPath ex_helpers ex_provider (Some ex_item)
       = (ReturnsUndefined, Some ex_item)
   \<and> fst (resolveCompletionItem ex_client_noPath ex_helpers ex_provider (Some ex_item))
       \<noteq> ReturnsItem"
  by (simp add: resolveCompletionItem_def resolveItem_def truthy_str_def ex_defs)

section \<open>Code action splitter\<close>

text \<open>
  C2, as the code has it. For a code-action list of one action with exactly one change
  for the current file and one change for another file (in either order), the splitter
  returns the current-file change's converted edits as \<open>additionalTextEdits\<close> (unset when
  that change has no edits) and a deferred command whose payload is the action with its
  current-file change removed. Run again on that stripped action alone, with the same
  current file, it returns no inline edits and the same deferred command: the change for
  the other file is still work that remains.
\<close>

theorem splitter_one_current_one_other:
  assumes "codeActions detail = Some [action]"
      and "changes action = Some chs"
      and "chs = [cur, oth] \<or> chs = [oth, cur]"
      and "fileName cur = filepath" and "fileName oth \<noteq> filepath"
  shows "getCodeActions hs detail filepath
           = Inr \<lparr>result_command =
                    Some \<lparr>cmd_title = [], cmd_command = ApplyCompletionCodeActionCommand_ID,
                          cmd_arguments = [[action\<lparr>changes := Some [oth]\<rparr>]]\<rparr>,
                  result_additionalTextEdits =
                    (if textChanges cur = [] then None
                     else Some (map (fromCodeEdit hs) (textChanges cur)))\<rparr>
       \<and> getCodeActions hs (detail\<lparr>codeActions := Some [action\<lparr>changes := Some [oth]\<rparr>]\<rparr>) filepath
           = Inr \<lparr>result_command =
                    Some \<lparr>cmd_title = [], cmd_command = ApplyCompletionCodeActionCommand_ID,
                          cmd_arguments = [[action\<lparr>changes := Some [oth]\<rparr>]]\<rparr>,
                  result_additionalTextEdits = None\<rparr>"
  using assms by (auto simp: getCodeActions_def)

text \<open>The sample action: an import edit for \<open>/a.ts\<close> and an export edit for \<open>/b.ts\<close>.\<close>

theorem splitter_one_current_one_other_witness:
  "getCodeActions ex_helpers ex_detail ''/a.ts''
           = Inr \<lparr>result_command =
                    Some \<lparr>cmd_title = [], cmd_command = ApplyCompletionCodeActionCommand_ID,
                          cmd_arguments = [[ex_action\<lparr>changes := Some [ex_change_oth]\<rparr>]]\<rparr>,
                  result_additionalTextEdits =
                    Some [ex_fromCodeEdit (ex_edit 1 ''import { foo } from lib'')]\<rparr>
       \<and> getCodeActions ex_helpers
            (ex_detail\<lparr>codeActions := Some [ex_action\<lparr>changes := Some [ex_change_oth]\<rparr>]\<rparr>) ''/a.ts''
           = Inr \<lparr>result_command =
                    Some \<lparr>cmd_title = [], cmd_command = ApplyCompletionCodeActionCommand_ID,
                          cmd_arguments = [[ex_action\<lparr>changes := Some [ex_change_oth]\<rparr>]]\<rparr>,
                  result_additionalTextEdits = None\<rparr>"
proof -
  have a: "codeActions ex_detail = Some [ex_action]" by (simp add: ex_detail_def)
  have b: "changes ex_action = Some [ex_change_cur, ex_change_oth]" by (simp add: ex_action_def)
  have c: "[ex_change_cur, ex_change_oth] = [ex_change_cur, ex_change_oth]
             \<or> [ex_change_cur, ex_change_oth] = [ex_change_oth, ex_change_cur]" by simp
  have d: "fileName ex_change_cur = ''/a.ts''" by (simp add: ex_change_cur_def)
  have e: "fileName ex_change_oth \<noteq> ''/a.ts''" by (simp add: ex_change_oth_def)
  have f: "textChanges ex_change_cur = [ex_edit 1 ''import { foo } from lib'']"
    by (simp add: ex_change_cur_def)
  show ?thesis
    using splitter_one_current_one_other[OF a b c d e, where hs = ex_helpers] f
    by (simp add: ex_helpers_def)
qed

text \<open>
  The splitter run on the stripped sample action alone: the call returns, and its result
  carries a deferred command.
\<close>

theorem splitter_rerun_counterexample:
  "\<not> isl (getCodeActions ex_helpers
          (ex_detail\<lparr>codeActions := Some [ex_action\<lparr>changes := Some [ex_change_oth]\<rparr>]\<rparr>) ''/a.ts'')
   \<and> result_command
       (projr (getCodeActions ex_helpers
          (ex_detail\<lparr>codeActions := Some [ex_action\<lparr>changes := Some [ex_change_oth]\<rparr>]\<rparr>) ''/a.ts''))
       \<noteq> None"
  by (simp add: getCodeActions_def ex_defs)

text \<open>
  C10. The splitter is not total: on every code-action list that holds an action with
  \<open>commands\<close> and without \<open>changes\<close>, \<open>getCodeActions\<close> reaches the payload of the
  deferred command, reads \<open>changes\<close> of an action that has none, and throws instead of
  returning a result. (The scanning loop reads \<open>changes\<close> behind a guard; the mapping
  that builds the payload does not.)
\<close>

theorem getCodeActions_absent_changes_throws:
  assumes "codeActions detail = Some actions"
      and "\<exists>a\<in>set actions. commands a \<noteq> None \<and> changes a = None"
  shows "getCodeActions hs detail filepath = Inl TypeError"
proof -
  from assms(2) have ne: "length actions \<noteq> 0" by auto
  from assms(2) have c: "\<exists>a\<in>set actions. commands a \<noteq> None" by auto
  from assms(2) have n: "\<exists>a\<in>set actions. changes a = None" by auto
  obtain e where sc: "scan_actions (fromCodeEdit hs) filepath actions ([], False) = (e, True)"
    using scan_actions_commands[OF c, of "fromCodeEdit hs" filepath "[]" False]
    by (cases "scan_actions (fromCodeEdit hs) filepath actions ([], False)") auto
  show ?thesis
    using assms(1) ne sc strip_actions_absent_changes[OF n, of filepath]
    by (simp add: getCodeActions_def)
qed

text \<open>Such a list: the sample action followed by an action with commands only.\<close>

theorem getCodeActions_absent_changes_throws_witness:
  "getCodeActions ex_helpers (ex_detail\<lparr>codeActions := Some [ex_action, ex_action_commands_only]\<rparr>)
     ''/a.ts'' = Inl TypeError"
proof -
  have a: "codeActions (ex_detail\<lparr>codeActions := Some [ex_action, ex_action_commands_only]\<rparr>)
             = Some [ex_action, ex_action_commands_only]" by simp
  have b: "\<exists>a\<in>set [ex_action, ex_action_commands_only]. commands a \<noteq> None \<and> changes a = None"
    by (simp add: ex_action_commands_only_def)
  show ?thesis using getCodeActions_absent_changes_throws[OF a b] by simp
qed

section \<open>Snippet synthesis\<close>

text \<open>
  C3. For every item whose correlation data already has \<open>isSnippet\<close> set, a call of
  \<open>resolveCompletionItem\<close> leaves the insertion text of the item as it was, whatever the
  backend answers: no snippet is synthesized again.
\<close>

theorem resolve_snippet_idempotent:
  assumes "data item = Some d" and "isSnippet d"
  shows "\<exists>res item'. resolveCompletionItem cl hs this (Some item) = (res, Some item')
           \<and> insertText item' = insertText item"
  using assms
  by (auto simp: resolveCompletionItem_def resolveItem_def resolveWithDetail_def Let_def
           split: exec_result.splits server_response.splits option.splits sum.splits prod.splits)

text \<open>The sample item after a first resolution, resolved once more.\<close>

theorem resolve_snippet_idempotent_witness:
  "\<exists>res item'. resolveCompletionItem ex_client ex_helpers ex_provider (Some ex_item_resolved)
                    = (res, Some item')
       \<and> insertText item' = Some ''foo(${1:a}, ${2:b}$3)$0''"
proof -
  have d: "data ex_item_resolved = Some (ex_data\<lparr>isSnippet := True\<rparr>)"
    by (simp add: ex_item_resolved_def)
  have s: "isSnippet (ex_data\<lparr>isSnippet := True\<rparr>)" by simp
  have i: "insertText ex_item_resolved = Some ''foo(${1:a}, ${2:b}$3)$0''"
    by (simp add: ex_item_resolved_def)
  show ?thesis
    using resolve_snippet_idempotent[OF d s, where cl = ex_client and hs = ex_helpers
                                     and this = ex_provider] i
    by simp
qed

text \<open>
  C5. For every parameter list of exactly two required parameters with an optional
  parameter present, the synthesized snippet is the insertion text (or the label, when
  there is none) followed by \<open>(\<close>, then two placeholders filled with the display texts of
  the two parameters and joined by \<open>, \<close>, then one more tab stop, then \<open>)\<close>, then the final
  tab stop 0; the insertion text of the item becomes the text of this snippet and no
  other field changes.
\<close>

theorem snippet_two_required_one_optional:
  assumes "getParameterListParts hs (displayParts detail)
             = \<lparr>parts = [p1, p2], hasOptionalParameters = True\<rparr>"
  shows "createSnippetOfFunctionCall hs item detail
     = item\<lparr>insertText := Some (snippet_value hs
         [SText ((case insertText item of Some t \<Rightarrow> t | None \<Rightarrow> label item) @ ''(''),
          SPlaceholder (part_text p1), SText '', '', SPlaceholder (part_text p2),
          STabstop None, SText '')'', STabstop (Some 0)])\<rparr>"
  using assms by (simp add: createSnippetOfFunctionCall_def functionCallSnippet_def)

text \<open>The signature \<open>foo(a, b, c?)\<close> of the sample detail.\<close>

theorem snippet_two_required_one_optional_witness:
  "createSnippetOfFunctionCall ex_helpers ex_item ex_detail
     = ex_item\<lparr>insertText := Some ''foo(${1:a}, ${2:b}$3)$0''\<rparr>"
proof -
  have a: "getParameterListParts ex_helpers (displayParts ex_detail)
             = \<lparr>parts = [ex_part ''parameterName'' ''a'', ex_part ''parameterName'' ''b''],
                hasOptionalParameters = True\<rparr>"
    by (simp add: ex_helpers_def ex_detail_def ex_displayParts_def ex_getParameterListParts_def
          ex_part_def)
  show ?thesis
    using snippet_two_required_one_optional[OF a, where item = ex_item]
    by (simp add: ex_helpers_def ex_item_def ex_part_def ex_digit_def)
qed

section \<open>Trigger gate\<close>

text \<open>
  C6. For every configuration, capability version, preceding text and completion option,
  \<open>shouldTrigger\<close> with the trigger character space returns true if and only if
  \<open>importStatementSuggestions\<close> is enabled, the version is below \<open>v430\<close>, and the
  preceding text is exactly \<open>import \<close>.
\<close>

theorem shouldTrigger_space_iff:
  "shouldTrigger v (Some '' '') pre opt cfg
     = (importStatementSuggestions cfg \<and> api_lt v v430 \<and> pre = ''import '')"
  by (auto simp: shouldTrigger_def shouldTrigger_legacy_def truthy_str_def)

text \<open>Version 4.2.0 with the default configuration: \<open>import \<close> triggers, \<open>import foo \<close> does not.\<close>

theorem shouldTrigger_space_iff_witness:
  "shouldTrigger (4, 2, 0) (Some '' '') ''import '' ex_option ex_config
   \<and> \<not> shouldTrigger (4, 2, 0) (Some '' '') ''import foo '' ex_option ex_config
   \<and> \<not> shouldTrigger (4, 3, 0) (Some '' '') ''import '' ex_option ex_config"
  using shouldTrigger_space_iff[of "(4, 2, 0)" "''import ''" ex_option ex_config]
    shouldTrigger_space_iff[of "(4, 2, 0)" "''import foo ''" ex_option ex_config]
    shouldTrigger_space_iff[of "(4, 3, 0)" "''import ''" ex_option ex_config]
  by (simp add: ex_config_def v430_def)

text \<open>
  C7. For every capability version below \<open>v290\<close>: \<open>shouldTrigger\<close> with the trigger
  character \<open>@\<close> returns false whenever the syntax name of the completion option is not a
  string-like one and the preceding text matches neither \<open>^\s*\*\s?@\<close> nor
  \<open>/\*\*+\s?@\<close>; and \<open>shouldTrigger\<close> with the trigger character \<open><\<close> returns false.
\<close>

theorem shouldTrigger_legacy_rejects:
  assumes "api_lt v v290"
  shows "(\<not> synnameIsString opt \<and> \<not> re_at_start spec_rx_jsdoc_line pre
            \<and> \<not> re_search spec_rx_jsdoc_open pre
          \<longrightarrow> \<not> shouldTrigger v (Some ''@'') pre opt cfg)
       \<and> \<not> shouldTrigger v (Some ''<'') pre opt cfg"
proof -
  have a: "\<not> re_at_start rx_jsdoc_line pre" if "\<not> re_at_start spec_rx_jsdoc_line pre"
    using that re_at_start_mono[OF jsdoc_line_le] by blast
  have b: "\<not> re_search rx_jsdoc_open pre" if "\<not> re_search spec_rx_jsdoc_open pre"
    using that re_search_mono[OF jsdoc_open_le] by blast
  show ?thesis
    using assms a b
    by (auto simp: shouldTrigger_def shouldTrigger_legacy_def truthy_str_def)
qed

text \<open>Version 2.8.0, in a comment, after the text \<open>a @\<close>.\<close>

theorem shouldTrigger_legacy_rejects_witness:
  "\<not> shouldTrigger (2, 8, 0) (Some ''@'') ''a @'' ex_option ex_config
   \<and> \<not> shouldTrigger (2, 8, 0) (Some ''<'') ''a @'' ex_option ex_config"
proof -
  have v: "api_lt (2, 8, 0) v290" by (simp add: v290_def)
  have s: "\<not> synnameIsString ex_option"
    by (simp add: synnameIsString_def ex_option_def rx_string_def rx_defs)
  have l: "\<not> re_at_start spec_rx_jsdoc_line ''a @''"
    by (simp add: spec_rx_jsdoc_line_def rx_defs)
  have p: "\<not> re_search spec_rx_jsdoc_open ''a @''"
    by (simp add: spec_rx_jsdoc_open_def rx_defs)
  show ?thesis
    using shouldTrigger_legacy_rejects[OF v, of ex_option "''a @''" ex_config] s l p
    by simp
qed

section \<open>Entry filter\<close>

text \<open>
  C8. For every entry list and configuration, the loop over the entries keeps, in their
  original order, exactly the entries that are none of: of kind \<open>warning\<close> while
  \<open>nameSuggestions\<close> is disabled; of kind directory, script or external module name while
  \<open>pathSuggestions\<close> is disabled; carrying \<open>hasAction\<close> while \<open>autoImportSuggestions\<close> is
  disabled. The items are the conversions of the kept entries, one for one.
\<close>

theorem entry_filter_exact:
  "collectItems conv cfg es []
     = map conv (filter (\<lambda>e.
         \<not> ((\<not> nameSuggestions cfg \<and> entry_kind e = Kind_warning)
            \<or> (\<not> pathSuggestions cfg
                 \<and> entry_kind e \<in> {Kind_directory, Kind_script, Kind_externalModuleName})
            \<or> (\<not> autoImportSuggestions cfg \<and> hasAction e))) es)"
proof -
  have "(\<lambda>e. \<not> shouldExcludeCompletionEntry e cfg)
      = (\<lambda>e. \<not> ((\<not> nameSuggestions cfg \<and> entry_kind e = Kind_warning)
            \<or> (\<not> pathSuggestions cfg
                 \<and> entry_kind e \<in> {Kind_directory, Kind_script, Kind_externalModuleName})
            \<or> (\<not> autoImportSuggestions cfg \<and> hasAction e)))"
    by (auto simp: shouldExcludeCompletionEntry_def fun_eq_iff)
  then show ?thesis by (simp add: collectItems_acc)
qed

text \<open>
  The four sample entries with \<open>nameSuggestions\<close> disabled: the warning is dropped, the
  other three stay in order.
\<close>

theorem entry_filter_exact_witness:
  "collectItems ex_convert ex_config_noNames ex_entries []
     = [ex_convert (ex_entry ''bar'' ''function'' False),
        ex_convert (ex_entry ''src'' ''directory'' False),
        ex_convert (ex_entry ''baz'' ''function'' True)]"
  using entry_filter_exact[of ex_convert ex_config_noNames ex_entries]
  by (simp add: ex_entries_def ex_config_noNames_def ex_config_def ex_entry_def
        Kind_warning_def Kind_directory_def Kind_script_def Kind_externalModuleName_def)

section \<open>Documentation\<close>

text \<open>
  C9. For every resolved detail, the documentation is the line
  \<open>Auto import from '<module>'\<close> with its line break when the detail carries a source,
  followed by the rendered description and the rendered tags, each dropped when blank and
  the two separated by an empty line when both remain. When this string is empty, the
  result is unset, not an empty string; in particular for a detail with no documentation,
  no tags and no source, the previewer rendering an absent input as a blank string. The
  resolution stores this result as the documentation of the item.
\<close>

theorem getDocumentation_blocks:
  "getDocumentation hs detail =
     (let header = (case detail_source detail of
                      None \<Rightarrow> []
                    | Some src \<Rightarrow> ''Auto import from '' @ [CHR 0x27]
                                    @ plainWithLinks hs (Some src) @ [CHR 0x27] @ [CHR 0x0A]);
          description = plainWithLinks hs (detail_documentation detail);
          tagText = tagsMarkdownPreview hs (tags detail);
          body = (if isBlank description then (if isBlank tagText then [] else tagText)
                  else if isBlank tagText then description
                  else description @ [CHR 0x0A, CHR 0x0A] @ tagText);
          doc = header @ body
      in if doc = [] then None else Some \<lparr>markup_kind = Markdown, markup_value = doc\<rparr>)
   \<and> (detail_source detail = None \<and> detail_documentation detail = None \<and> tags detail = None
        \<and> isBlank (plainWithLinks hs None) \<and> isBlank (tagsMarkdownPreview hs None)
      \<longrightarrow> getDocumentation hs detail = None)
   \<and> documentation (snd (resolveWithDetail cl hs this item d filepath previousInsert detail))
       = getDocumentation hs detail"
  by (auto simp: getDocumentation_def Let_def kept_segment_iff resolveWithDetail_documentation
           split: option.splits)

text \<open>The sample detail with a source and a description, and the bare one.\<close>

theorem getDocumentation_blocks_witness:
  "getDocumentation ex_helpers ex_detail
     = Some \<lparr>markup_kind = Markdown,
             markup_value = ''Auto import from '' @ [CHR 0x27] @ ''lib'' @ [CHR 0x27]
                            @ [CHR 0x0A] @ ''Does foo.''\<rparr>
   \<and> getDocumentation ex_helpers ex_detail_bare = None"
proof -
  have a: "detail_source ex_detail_bare = None \<and> detail_documentation ex_detail_bare = None
             \<and> tags ex_detail_bare = None
             \<and> isBlank (plainWithLinks ex_helpers None)
             \<and> isBlank (tagsMarkdownPreview ex_helpers None)"
    by (simp add: ex_defs isBlank_def)
  note bare = getDocumentation_blocks[where hs = ex_helpers and detail = ex_detail_bare
      and cl = ex_client and this = ex_provider and item = ex_item and d = ex_data
      and filepath = "''/a.ts''" and previousInsert = None]
  note full = getDocumentation_blocks[where hs = ex_helpers and detail = ex_detail
      and cl = ex_client and this = ex_provider and item = ex_item and d = ex_data
      and filepath = "''/a.ts''" and previousInsert = None]
  have "getDocumentation ex_helpers ex_detail_bare = None"
    using bare a by blast
  moreover have "getDocumentation ex_helpers ex_detail
     = Some \<lparr>markup_kind = Markdown,
             markup_value = ''Auto import from '' @ [CHR 0x27] @ ''lib'' @ [CHR 0x27]
                            @ [CHR 0x0A] @ ''Does foo.''\<rparr>"
    using conjunct1[OF full]
    by (simp add: ex_defs isBlank_def js_isSpace_def)
  ultimately show ?thesis by simp
qed

section \<open>Accessor context of a member completion\<close>

text \<open>
  Whenever an accessor context is attached, its range ends at the cursor and starts one
  character before it: the start is computed from the number of elements of the match
  array, which is one for a literal without groups, whatever the length of the match.
\<close>

lemma re_match_to_end_length: "re_match_to_end r s = Some m \<Longrightarrow> length m = 1"
  by (induction s) (auto split: if_splits)

lemma memberDotAccessorContext_width:
  "memberDotAccessorContext doc pos preText = Some ctx \<Longrightarrow>
     character (range_start (dac_range ctx)) = character pos - 1
     \<and> range_end (dac_range ctx) = pos"
  by (auto simp: memberDotAccessorContext_def Let_def dest: re_match_to_end_length
           split: option.splits)

lemma memberDotAccessorContext_none:
  "re_match_to_end rx_dot (js_slice_to preText (character pos)) = None \<Longrightarrow>
     memberDotAccessorContext doc pos preText = None"
  by (simp add: memberDotAccessorContext_def)

lemma sample_accessor_context:
  "memberDotAccessorContext ex_document ex_position ''foo?.''
     = Some \<lparr>dac_range = \<lparr>range_start = \<lparr>line = 0, character = 4\<rparr>,
                            range_end = \<lparr>line = 0, character = 5\<rparr>\<rparr>,
             dac_text = ''.''\<rparr>"
  by (simp add: memberDotAccessorContext_def rx_dot_def rx_defs js_slice_to_def getText_def
        ex_defs)

text \<open>
  C4, on the line \<open>foo?.\<close> with the cursor at its end and a member completion: the
  text matched before the cursor is \<open>?.\<close>, of length 2, and the accessor context that is
  attached, and handed to the conversion of every entry, has a range of width 1 and the
  text \<open>.\<close>.
\<close>

theorem memberDotAccessorContext_optional_chain:
  "re_match_to_end rx_dot ''foo?.'' = Some [''?.'']
   \<and> memberDotAccessorContext ex_document ex_position ''foo?.''
       = Some \<lparr>dac_range = \<lparr>range_start = \<lparr>line = 0, character = 4\<rparr>,
                              range_end = \<lparr>line = 0, character = 5\<rparr>\<rparr>,
               dac_text = ''.''\<rparr>
   \<and> fst (provideCompletionItems ex_client conv ex_workspace ex_provider ex_document
              ex_position ex_context)
       = Inr (Some \<lparr>isIncomplete = False,
                     items = map (\<lambda>e. conv e ''file:///a.ts'' ex_position ex_convert_context)
                               ex_entries\<rparr>)"
proof -
  have m: "re_match_to_end rx_dot ''foo?.'' = Some [''?.'']"
    by (simp add: rx_dot_def rx_defs)
  have p: "fst (provideCompletionItems ex_client conv ex_workspace ex_provider ex_document
              ex_position ex_context)
       = Inr (Some \<lparr>isIncomplete = False,
                     items = map (\<lambda>e. conv e ''file:///a.ts'' ex_position ex_convert_context)
                               ex_entries\<rparr>)"
    by (simp add: provideCompletionItems_def Let_def collectItems_acc
          shouldTrigger_def shouldTrigger_legacy_def isInValidCommitCharacterContext_def
          getTsTriggerCharacter_def memberDotAccessorContext_def
          shouldExcludeCompletionEntry_def getConfigurationForResource_def config_get_def
          getText_def js_slice_to_def truthy_str_def api_gte_def
          v290_def v300_def v320_def rx_dot_def rx_defs ex_defs)
  show ?thesis using m sample_accessor_context p by simp
qed

section \<open>The model on the sample data\<close>

text \<open>
  The sample item resolves to an item with the snippet of \<open>foo(a, b, c?)\<close>; the
  placeholder item carries no correlation data, and resolving it throws.
\<close>

lemma sample_resolution:
  "fst (resolveCompletionItem ex_client ex_helpers ex_provider (Some ex_item)) = ReturnsItem
   \<and> map_option insertText (snd (resolveCompletionItem ex_client ex_helpers ex_provider (Some ex_item)))
       = Some (Some ''foo(${1:a}, ${2:b}$3)$0'')"
  by (simp add: resolveCompletionItem_def resolveItem_def resolveWithDetail_def
        getCodeActions_def getDocumentation_def isValidFunctionCompletionContext_def
        createSnippetOfFunctionCall_def functionCallSnippet_def detailsArgs_def
        truthy_str_def js_slice_from_def rx_call_def rx_defs ex_defs)

text \<open>With name suggestions turned off, the sample request lists every entry but the warning.\<close>

lemma sample_list_noNames:
  "fst (provideCompletionItems ex_client conv ex_workspace_noNames ex_provider ex_document
          ex_position ex_context)
     = Inr (Some \<lparr>isIncomplete = False,
                   items = map (\<lambda>e. conv e ''file:///a.ts'' ex_position ex_convert_context)
                             [ex_entry ''bar'' ''function'' False,
                              ex_entry ''src'' ''directory'' False,
                              ex_entry ''baz'' ''function'' True]\<rparr>)"
  by (simp add: provideCompletionItems_def Let_def collectItems_acc
        shouldTrigger_def shouldTrigger_legacy_def isInValidCommitCharacterContext_def
        getTsTriggerCharacter_def memberDotAccessorContext_def
        shouldExcludeCompletionEntry_def getConfigurationForResource_def config_get_def
        getText_def js_slice_to_def truthy_str_def api_gte_def
        Kind_warning_def Kind_directory_def Kind_script_def Kind_externalModuleName_def
        v290_def v300_def v320_def rx_dot_def rx_defs ex_defs)

lemma placeholder_resolution:
  "fst (provideCompletionItems (ex_client\<lparr>isAcquiringTypings := True\<rparr>) conv ex_workspace
          ex_provider ex_document ex_position ex_context)
     = Inr (Some \<lparr>isIncomplete = True, items = [ex_placeholder]\<rparr>)
   \<and> resolveCompletionItem ex_client ex_helpers ex_provider (Some ex_placeholder)
     = (Throws TypeError, Some ex_placeholder)"
  by (simp add: provideCompletionItems_def resolveCompletionItem_def resolveItem_def
        ex_placeholder_def)

end
